theory Spec2Isabelle
  imports Main "HOL-Library.Word"
begin

unbundle bit_operations_syntax

section \<open>Machine types of the target\<close>

text \<open>
  The sketch is built for the AVR Arduino boards (it uses \<^verbatim>\<open>EEPROM.h\<close> and stores a
  4-byte \<^verbatim>\<open>long\<close> as two \<^verbatim>\<open>int\<close> halves of two bytes each): \<^verbatim>\<open>int\<close> is 16 bits wide,
  \<^verbatim>\<open>long\<close> is 32 bits wide and \<^verbatim>\<open>byte\<close> is 8 bits wide. Signed and unsigned values share
  the word type; where the source's operation depends on the sign (right shift of a signed
  value, widening of an \<^verbatim>\<open>int\<close> to \<^verbatim>\<open>long\<close>) the signed operation is written out.
\<close>

type_synonym byte = "8 word"
type_synonym c_int = "16 word"
type_synonym c_long = "32 word"

section \<open>Helpers of the Arduino core and the macros of the sketch\<close>

text \<open>\<^verbatim>\<open>#define highByte(w) ((uint8_t) ((w) >> 8))\<close>, applied to an \<^verbatim>\<open>int\<close>.\<close>

definition highByte :: "c_int \<Rightarrow> byte" where
  "highByte w = ucast (signed_drop_bit 8 w)"

text \<open>\<^verbatim>\<open>#define lowByte(w) ((uint8_t) ((w) & 0xff))\<close>, applied to an \<^verbatim>\<open>int\<close>.\<close>

definition lowByte :: "c_int \<Rightarrow> byte" where
  "lowByte w = ucast (w AND 0xff)"

text \<open>\<^verbatim>\<open>word(h, l)\<close> of the Arduino core: \<^verbatim>\<open>(h << 8) | l\<close> as a 16-bit value.\<close>

definition makeWord :: "byte \<Rightarrow> byte \<Rightarrow> c_int" where
  "makeWord h l = push_bit 8 (ucast h) OR ucast l"

text \<open>\<^verbatim>\<open>#define highWord(w) ((w) >> 16)\<close>: an arithmetic shift of the \<^verbatim>\<open>long\<close>.\<close>

definition highWord :: "c_long \<Rightarrow> c_long" where
  "highWord w = signed_drop_bit 16 w"

text \<open>\<^verbatim>\<open>#define lowWord(w) ((w) & 0xffff)\<close>.\<close>

definition lowWord :: "c_long \<Rightarrow> c_long" where
  "lowWord w = w AND 0xffff"

text \<open>
  \<^verbatim>\<open>#define makeLong(hi, low) (((long) hi) << 16 | (low))\<close>. Both arguments are \<^verbatim>\<open>int\<close>
  variables at the only call site: \<^verbatim>\<open>hi\<close> is cast to \<^verbatim>\<open>long\<close> and shifted, and \<^verbatim>\<open>low\<close> is
  widened to \<^verbatim>\<open>long\<close> by the usual arithmetic conversions of \<^verbatim>\<open>|\<close>. Both widenings are
  from a signed 16-bit type, so both extend the sign.
\<close>

definition makeLong :: "c_int \<Rightarrow> c_int \<Rightarrow> c_long" where
  "makeLong hi low = push_bit 16 (scast hi) OR scast low"

section \<open>The EEPROM device\<close>

text \<open>
  The byte store of \<^verbatim>\<open>EEPROM.h\<close>: one byte per \<^verbatim>\<open>int\<close> address. Next to the cells the
  model keeps the history of the accesses, oldest first, so that the number and the order
  of the reads and writes of a procedure can be stated.
\<close>

datatype eeprom_op = EeRead c_int | EeWrite c_int byte

record eeprom =
  cells :: "c_int \<Rightarrow> byte"
  accesses :: "eeprom_op list"

definition EEPROM_write :: "c_int \<Rightarrow> byte \<Rightarrow> eeprom \<Rightarrow> eeprom" where
  "EEPROM_write address val ee =
     ee\<lparr>cells := (cells ee)(address := val),
        accesses := accesses ee @ [EeWrite address val]\<rparr>"

definition EEPROM_read :: "c_int \<Rightarrow> eeprom \<Rightarrow> byte \<times> eeprom" where
  "EEPROM_read address ee =
     (cells ee address, ee\<lparr>accesses := accesses ee @ [EeRead address]\<rparr>)"

section \<open>Saving and loading the 4-byte code\<close>

text \<open>
  The loop of \<^verbatim>\<open>saveToEeprom\<close>, \<^verbatim>\<open>for (int i = 0; i < 2; i++)\<close>, from counter \<open>i\<close> on.
  The address arithmetic is that of \<^verbatim>\<open>int\<close>.
\<close>

function saveToEeprom_loop :: "c_int list \<Rightarrow> c_int \<Rightarrow> nat \<Rightarrow> eeprom \<Rightarrow> eeprom" where
  "saveToEeprom_loop data address i ee =
     (if i < 2 then
        saveToEeprom_loop data address (i + 1)
          (EEPROM_write (address + of_nat i * 2 + 1) (lowByte (data ! i))
            (EEPROM_write (address + of_nat i * 2) (highByte (data ! i)) ee))
      else ee)"
  by pat_completeness auto
termination
  by (relation "measure (\<lambda>(data, address, i, ee). 2 - i)") auto

declare saveToEeprom_loop.simps [simp del]

definition saveToEeprom :: "c_long \<Rightarrow> c_int \<Rightarrow> eeprom \<Rightarrow> eeprom" where
  "saveToEeprom val address ee =
     (let data = [ucast (highWord val), ucast (lowWord val)]
      in saveToEeprom_loop data address 0 ee)"

text \<open>
  The loop of \<^verbatim>\<open>loadFromEeprom\<close>, \<^verbatim>\<open>for (int i = 0; i < 4; i++)\<close>, filling the array
  \<^verbatim>\<open>data\<close> from counter \<open>i\<close> on.
\<close>

function loadFromEeprom_loop :: "c_int \<Rightarrow> nat \<Rightarrow> byte list \<Rightarrow> eeprom \<Rightarrow> byte list \<times> eeprom" where
  "loadFromEeprom_loop address i data ee =
     (if i < 4 then
        (case EEPROM_read (address + of_nat i) ee of
           (b, ee') \<Rightarrow> loadFromEeprom_loop address (i + 1) (data[i := b]) ee')
      else (data, ee))"
  by pat_completeness auto
termination
  by (relation "measure (\<lambda>(address, i, data, ee). 4 - i)") auto

declare loadFromEeprom_loop.simps [simp del]

text \<open>
  The array \<^verbatim>\<open>byte data[4]\<close> starts uninitialised; the loop overwrites all four cells
  before any is read, so the model starts it at zero.
\<close>

definition loadFromEeprom :: "c_int \<Rightarrow> eeprom \<Rightarrow> c_long \<times> eeprom" where
  "loadFromEeprom address ee =
     (case loadFromEeprom_loop address 0 (replicate 4 0) ee of
        (data, ee') \<Rightarrow>
          (let high = makeWord (data ! 0) (data ! 1);
               low = makeWord (data ! 2) (data ! 3)
           in (makeLong high low, ee')))"

section \<open>Pins and the decoder\<close>

text \<open>
  \<^verbatim>\<open>digitalRead\<close> of the Arduino core returns the \<^verbatim>\<open>int\<close> constants \<^verbatim>\<open>HIGH\<close> (1) or
  \<^verbatim>\<open>LOW\<close> (0), nothing else; the electrical level is a type of its own and
  \<open>digitalRead\<close> maps it to the \<^verbatim>\<open>int\<close> the sketch computes with.
\<close>

datatype level = LOW | HIGH

fun digitalRead :: "level \<Rightarrow> c_int" where
  "digitalRead LOW = 0"
| "digitalRead HIGH = 1"

text \<open>
  The part of \<^verbatim>\<open>decode_results\<close> (IRremote) the sketch reads: the protocol tag and the
  decoded value (the field \<^verbatim>\<open>value\<close>, an \<^verbatim>\<open>unsigned long\<close>).
\<close>

record decode_results =
  decode_type :: c_int
  ir_value :: c_long

text \<open>
  The protocol tag \<^verbatim>\<open>RC6\<close> of IRremote.h (\<^verbatim>\<open>#define RC6 4\<close>). The sketch only compares
  against it, and no theorem below depends on the number.
\<close>

definition RC6 :: c_int where
  "RC6 = 4"

definition LEARN_BUTTON_PIN :: c_int where
  "LEARN_BUTTON_PIN = 10"

definition LEARN_LED_PIN :: c_int where
  "LEARN_LED_PIN = 12"

definition WORK_LED_PIN :: c_int where
  "WORK_LED_PIN = 7"

definition IR_CODE_DATA_ADDRESS :: c_int where
  "IR_CODE_DATA_ADDRESS = 0"

section \<open>The state of the sketch\<close>

text \<open>
  The four globals of the sketch, the EEPROM, and the levels last written to the output
  pins. The type \<^verbatim>\<open>boolean\<close> of the globals is \<open>bool\<close>: the sketch stores only 0 and 1
  in them, an \<^verbatim>\<open>int\<close> is turned into a \<^verbatim>\<open>boolean\<close> by \<open>\<noteq> 0\<close> and a \<^verbatim>\<open>boolean\<close> into an
  \<^verbatim>\<open>int\<close> by \<open>of_bool\<close>.

  \<open>codes\<close> is a history variable that the source does not have: the arguments of the
  calls of \<^verbatim>\<open>processCode\<close> so far, oldest first (the lines \<^verbatim>\<open>processCode\<close> prints on the
  serial port when the sketch is built with \<^verbatim>\<open>DEBUG\<close>). No branch of the model reads it.

  \<^verbatim>\<open>delay\<close> changes no variable of the sketch and is left out.
\<close>

record state =
  learnButtonState :: bool
  learnModeEnabled :: bool
  workLedState :: bool
  irCodeData :: c_long
  EEPROM :: eeprom
  pins :: "c_int \<Rightarrow> level"
  codes :: "c_long list"

definition digitalWrite :: "c_int \<Rightarrow> bool \<Rightarrow> state \<Rightarrow> state" where
  "digitalWrite pin val s = s\<lparr>pins := (pins s)(pin := (if val then HIGH else LOW))\<rparr>"

section \<open>The debounced button\<close>

text \<open>
  The environment of one call of \<^verbatim>\<open>getButtonState\<close> is the level that the \<open>k\<close>-th
  \<^verbatim>\<open>digitalRead\<close> of the call finds on a pin (\<open>k = 0\<close> is the first read). The loop
  \<^verbatim>\<open>for (int i = 0; i < 3; i++)\<close> either returns -1 from inside (\<open>Some\<close>) or runs to
  its end (\<open>None\<close>).
\<close>

function getButtonState_loop :: "(nat \<Rightarrow> level) \<Rightarrow> c_int \<Rightarrow> nat \<Rightarrow> c_int option" where
  "getButtonState_loop rd pinState i =
     (if i < 3 then
        (if digitalRead (rd (i + 1)) \<noteq> pinState then Some (- 1)
         else getButtonState_loop rd pinState (i + 1))
      else None)"
  by pat_completeness auto
termination
  by (relation "measure (\<lambda>(rd, pinState, i). 3 - i)") auto

declare getButtonState_loop.simps [simp del]

definition getButtonState :: "(c_int \<Rightarrow> nat \<Rightarrow> level) \<Rightarrow> c_int \<Rightarrow> bool \<Rightarrow> c_int" where
  "getButtonState env pin pullUp =
     (let pinState = digitalRead (env pin 0)
      in case getButtonState_loop (env pin) pinState 0 of
           Some r \<Rightarrow> r
         | None \<Rightarrow> of_bool pullUp XOR pinState)"

definition processLearnButton :: "(c_int \<Rightarrow> nat \<Rightarrow> level) \<Rightarrow> state \<Rightarrow> state" where
  "processLearnButton env s =
     (let buttonState = getButtonState env LEARN_BUTTON_PIN True
      in if buttonState = - 1 then s
         else if buttonState = of_bool (learnButtonState s) then s
         else s\<lparr>learnButtonState := (buttonState \<noteq> 0),
                learnModeEnabled := (buttonState \<noteq> 0)\<rparr>)"

definition processLearnLed :: "state \<Rightarrow> state" where
  "processLearnLed s = digitalWrite LEARN_LED_PIN (learnModeEnabled s) s"

definition processWorkLed :: "state \<Rightarrow> state" where
  "processWorkLed s = digitalWrite WORK_LED_PIN (workLedState s) s"

section \<open>Remote codes\<close>

definition processCode :: "c_long \<Rightarrow> state \<Rightarrow> state" where
  "processCode val s0 =
     (let s = s0\<lparr>codes := codes s0 @ [val]\<rparr>
      in if learnModeEnabled s then
           (let s1 = s\<lparr>irCodeData := val\<rparr>;
                s2 = s1\<lparr>EEPROM := saveToEeprom (irCodeData s1) IR_CODE_DATA_ADDRESS (EEPROM s1)\<rparr>
            in s2\<lparr>learnModeEnabled := False\<rparr>)
         else if irCodeData s = val then
           s\<lparr>workLedState := \<not> workLedState s\<rparr>
         else s)"

text \<open>
  \<^verbatim>\<open>irrecv.decode(&irresult)\<close> either has no code (\<open>None\<close>) or fills \<^verbatim>\<open>irresult\<close>.
  \<^verbatim>\<open>value &= ~0x8000LL\<close> computes in 64 bits and stores the low 32 bits back, which is
  the 32-bit conjunction with the complement of \<open>0x8000\<close>.
\<close>

definition processIr :: "decode_results option \<Rightarrow> state \<Rightarrow> state" where
  "processIr dec s =
     (case dec of
        None \<Rightarrow> s
      | Some irresult \<Rightarrow>
          (let val = ir_value irresult
           in if 0xFFFFFFFF \<noteq> val then
                processCode (if decode_type irresult = RC6 then val AND NOT 0x8000 else val) s
              else s))"

section \<open>Start-up and the main loop\<close>

text \<open>
  \<^verbatim>\<open>setup()\<close>, run on the EEPROM as the board finds it at power-up: the globals have
  their initialisers, the output pins are low, and the code is loaded from the EEPROM.
\<close>

definition setup_sketch :: "eeprom \<Rightarrow> state" where
  "setup_sketch ee =
     (case loadFromEeprom IR_CODE_DATA_ADDRESS ee of
        (v, ee') \<Rightarrow>
          \<lparr>learnButtonState = False, learnModeEnabled = False, workLedState = False,
           irCodeData = v, EEPROM = ee', pins = (\<lambda>_. LOW), codes = []\<rparr>)"

text \<open>
  What one pass of \<^verbatim>\<open>loop()\<close> gets from outside: the levels the button reads find, and
  what the decoder has.
\<close>

record loop_input =
  gpio :: "c_int \<Rightarrow> nat \<Rightarrow> level"
  ir :: "decode_results option"

definition loop :: "loop_input \<Rightarrow> state \<Rightarrow> state" where
  "loop inp s =
     processIr (ir inp) (processWorkLed (processLearnLed (processLearnButton (gpio inp) s)))"

fun run :: "loop_input list \<Rightarrow> state \<Rightarrow> state" where
  "run [] s = s"
| "run (inp # inps) s = run inps (loop inp s)"

section \<open>Concrete inputs for the examples\<close>

text \<open>
  An EEPROM as the chip is delivered (every cell reads \<open>0xFF\<close>), one pass of the loop with
  the learn button steadily held (the pulled-up pin reads low) or steadily released, and a
  state of the sketch with the given recorded button state, mode and trained code.
\<close>

definition erased_eeprom :: eeprom where
  "erased_eeprom = \<lparr>cells = (\<lambda>_. 0xFF), accesses = []\<rparr>"

definition button_held :: "decode_results option \<Rightarrow> loop_input" where
  "button_held dec = \<lparr>gpio = (\<lambda>_ _. LOW), ir = dec\<rparr>"

definition button_released :: "decode_results option \<Rightarrow> loop_input" where
  "button_released dec = \<lparr>gpio = (\<lambda>_ _. HIGH), ir = dec\<rparr>"

definition example_state :: "bool \<Rightarrow> bool \<Rightarrow> c_long \<Rightarrow> state" where
  "example_state button learn code =
     \<lparr>learnButtonState = button, learnModeEnabled = learn, workLedState = False,
      irCodeData = code, EEPROM = erased_eeprom, pins = (\<lambda>_. LOW), codes = []\<rparr>"

lemmas example_defs = erased_eeprom_def button_held_def button_released_def example_state_def

section \<open>Facts about the byte helpers\<close>

lemma mask_255: "(0xff :: 'a::len word) = mask 8"
  by (simp add: mask_eq_exp_minus_1)

lemma mask_65535: "(0xffff :: 'a::len word) = mask 16"
  by (simp add: mask_eq_exp_minus_1)

lemma upper_half_mask: "(0xFFFF0000 :: c_long) = NOT (mask 16)"
  by (simp add: mask_eq_exp_minus_1)

lemma highByte_highWord: "highByte (ucast (highWord v)) = ucast (drop_bit 24 v)"
  unfolding highByte_def highWord_def
  by (rule bit_word_eqI) (auto simp add: bit_simps)

lemma lowByte_highWord: "lowByte (ucast (highWord v)) = ucast (drop_bit 16 v)"
  unfolding lowByte_def highWord_def mask_255
  by (rule bit_word_eqI) (auto simp add: bit_simps)

lemma highByte_lowWord: "highByte (ucast (lowWord v)) = ucast (drop_bit 8 v)"
  unfolding highByte_def lowWord_def mask_65535
  by (rule bit_word_eqI) (auto simp add: bit_simps)

lemma lowByte_lowWord: "lowByte (ucast (lowWord v)) = ucast v"
  unfolding lowByte_def lowWord_def mask_255 mask_65535
  by (rule bit_word_eqI) (auto simp add: bit_simps)

lemma makeWord_upper_bytes:
  "makeWord (ucast (drop_bit 24 (v::c_long))) (ucast (drop_bit 16 v)) = ucast (drop_bit 16 v)"
  unfolding makeWord_def
  by (rule bit_word_eqI) (auto simp add: bit_simps not_less)

lemma makeWord_lower_bytes:
  "makeWord (ucast (drop_bit 8 (v::c_long))) (ucast v) = ucast v"
  unfolding makeWord_def
  by (rule bit_word_eqI) (auto simp add: bit_simps not_less)

text \<open>
  The bits of \<open>makeLong hi low\<close>: the lower half is \<open>low\<close>; a bit of the upper half is set
  when it is set in \<open>hi\<close> or when \<open>low\<close> is negative.
\<close>

lemma bit_makeLong:
  "bit (makeLong hi low) n \<longleftrightarrow>
     (n < 16 \<and> bit low n) \<or> (16 \<le> n \<and> n < 32 \<and> (bit hi (n - 16) \<or> bit low 15))"
proof (cases "n < 16")
  case True
  then show ?thesis
    by (simp add: makeLong_def bit_simps)
next
  case False
  then obtain k where k: "n = 16 + k"
    by (metis le_Suc_ex not_less)
  show ?thesis
    unfolding k makeLong_def
    by (auto simp add: bit_simps)
qed

lemma makeLong_halves:
  "makeLong (ucast (drop_bit 16 v)) (ucast v) = (if bit v 15 then v OR 0xFFFF0000 else v)"
proof (rule bit_word_eqI)
  fix n
  assume "n < LENGTH(32)"
  then have n: "n < 32" by simp
  show "bit (makeLong (ucast (drop_bit 16 v)) (ucast v)) n
        \<longleftrightarrow> bit (if bit v 15 then v OR 0xFFFF0000 else v) n"
  proof (cases "n < 16")
    case True
    then show ?thesis
      by (simp add: bit_makeLong upper_half_mask bit_simps)
  next
    case False
    then obtain k where k: "n = 16 + k"
      by (metis le_Suc_ex not_less)
    with n have "k < 16" by simp
    then show ?thesis
      unfolding k by (simp add: bit_makeLong upper_half_mask bit_simps)
  qed
qed

section \<open>The two EEPROM procedures, unrolled\<close>

lemma saveToEeprom_unfold:
  "saveToEeprom v a ee =
     EEPROM_write (a + 3) (lowByte (ucast (lowWord v)))
      (EEPROM_write (a + 2) (highByte (ucast (lowWord v)))
        (EEPROM_write (a + 1) (lowByte (ucast (highWord v)))
          (EEPROM_write a (highByte (ucast (highWord v))) ee)))"
  by (simp add: saveToEeprom_def saveToEeprom_loop.simps add.commute)

lemma saveToEeprom_bytes:
  "saveToEeprom v a ee =
     EEPROM_write (a + 3) (ucast v)
      (EEPROM_write (a + 2) (ucast (drop_bit 8 v))
        (EEPROM_write (a + 1) (ucast (drop_bit 16 v))
          (EEPROM_write a (ucast (drop_bit 24 v)) ee)))"
  by (simp only: saveToEeprom_unfold highByte_highWord lowByte_highWord
      highByte_lowWord lowByte_lowWord)

lemma loadFromEeprom_unfold:
  "loadFromEeprom a ee =
     (makeLong (makeWord (cells ee a) (cells ee (a + 1)))
               (makeWord (cells ee (a + 2)) (cells ee (a + 3))),
      ee\<lparr>accesses := accesses ee @ [EeRead a, EeRead (a + 1), EeRead (a + 2), EeRead (a + 3)]\<rparr>)"
  by (simp add: loadFromEeprom_def loadFromEeprom_loop.simps EEPROM_read_def numeral_eq_Suc)

text \<open>
  What a load finds after a save at the same address: the value comes back when its bit 15
  is clear, and with its upper half all ones when bit 15 is set.
\<close>

lemma loadFromEeprom_saveToEeprom:
  "fst (loadFromEeprom a (saveToEeprom v a ee)) = (if bit v 15 then v OR 0xFFFF0000 else v)"
proof -
  have "fst (loadFromEeprom a (saveToEeprom v a ee)) =
        makeLong (makeWord (ucast (drop_bit 24 v)) (ucast (drop_bit 16 v)))
                 (makeWord (ucast (drop_bit 8 v)) (ucast v))"
    by (simp add: loadFromEeprom_unfold saveToEeprom_bytes EEPROM_write_def)
  then show ?thesis
    by (simp only: makeWord_upper_bytes makeWord_lower_bytes makeLong_halves)
qed

section \<open>The debounce procedure\<close>

lemma digitalRead_eq_iff: "digitalRead a = digitalRead b \<longleftrightarrow> a = b"
  by (cases a; cases b) simp_all

lemma getButtonState_loop_unfold:
  "getButtonState_loop rd p 0 =
     (if digitalRead (rd 1) \<noteq> p then Some (- 1)
      else if digitalRead (rd 2) \<noteq> p then Some (- 1)
      else if digitalRead (rd 3) \<noteq> p then Some (- 1)
      else None)"
proof -
  have l3: "getButtonState_loop rd p 3 = None"
    by (simp add: getButtonState_loop.simps)
  have l2: "getButtonState_loop rd p 2 =
      (if digitalRead (rd 3) \<noteq> p then Some (- 1) else None)"
    by (subst getButtonState_loop.simps) (simp add: l3 del: One_nat_def)
  have l1: "getButtonState_loop rd p 1 =
      (if digitalRead (rd 2) \<noteq> p then Some (- 1) else getButtonState_loop rd p 2)"
    by (subst getButtonState_loop.simps) (simp del: One_nat_def)
  have l0: "getButtonState_loop rd p 0 =
      (if digitalRead (rd 1) \<noteq> p then Some (- 1) else getButtonState_loop rd p 1)"
    by (subst getButtonState_loop.simps) (simp del: One_nat_def)
  show ?thesis
    by (simp only: l0 l1 l2)
qed

lemma getButtonState_unfold:
  "getButtonState env pin pullUp =
     (if env pin 1 = env pin 0 \<and> env pin 2 = env pin 0 \<and> env pin 3 = env pin 0
      then of_bool pullUp XOR digitalRead (env pin 0) else - 1)"
  by (simp add: getButtonState_def getButtonState_loop_unfold digitalRead_eq_iff Let_def
      del: One_nat_def)

lemma getButtonState_pullUp_cases:
  "getButtonState env pin True = - 1 \<or> getButtonState env pin True = 0
   \<or> getButtonState env pin True = 1"
  by (cases "env pin 0") (simp_all add: getButtonState_unfold)

text \<open>
  Claim C5 (debounce): when the first read and the three re-reads of the pin agree,
  \<^verbatim>\<open>getButtonState\<close> returns the stable level with the polarity applied (\<open>pullUp XOR level\<close>:
  with \<open>pullUp\<close> true a low pin is 1, pressed, and a high pin is 0, released; with \<open>pullUp\<close>
  false it is the other way round); when a re-read differs from the first read, it returns
  -1.
\<close>

theorem getButtonState_debounce:
  "(env pin 1 = env pin 0 \<and> env pin 2 = env pin 0 \<and> env pin 3 = env pin 0 \<longrightarrow>
      getButtonState env pin pullUp = of_bool pullUp XOR digitalRead (env pin 0)
      \<and> getButtonState env pin True = (case env pin 0 of LOW \<Rightarrow> 1 | HIGH \<Rightarrow> 0)
      \<and> getButtonState env pin False = (case env pin 0 of LOW \<Rightarrow> 0 | HIGH \<Rightarrow> 1))
   \<and> (env pin 1 \<noteq> env pin 0 \<or> env pin 2 \<noteq> env pin 0 \<or> env pin 3 \<noteq> env pin 0 \<longrightarrow>
      getButtonState env pin pullUp = - 1)"
  by (cases "env pin 0") (auto simp add: getButtonState_unfold)

theorem getButtonState_debounce_witness:
  "getButtonState (\<lambda>_ _. LOW) LEARN_BUTTON_PIN True = 1
   \<and> getButtonState (\<lambda>_ _. HIGH) LEARN_BUTTON_PIN True = 0
   \<and> getButtonState (\<lambda>_ k. if k = 2 then HIGH else LOW) LEARN_BUTTON_PIN True = - 1"
  using getButtonState_debounce [of "\<lambda>_ _. LOW" LEARN_BUTTON_PIN True]
    getButtonState_debounce [of "\<lambda>_ _. HIGH" LEARN_BUTTON_PIN True]
    getButtonState_debounce [of "\<lambda>_ k. if k = 2 then HIGH else LOW" LEARN_BUTTON_PIN True]
  by simp

section \<open>The procedures of the sketch, case by case\<close>

lemma processLearnButton_cases:
  "processLearnButton env s =
     (if getButtonState env LEARN_BUTTON_PIN True = - 1 then s
      else if getButtonState env LEARN_BUTTON_PIN True = of_bool (learnButtonState s) then s
      else s\<lparr>learnButtonState := (getButtonState env LEARN_BUTTON_PIN True \<noteq> 0),
             learnModeEnabled := (getButtonState env LEARN_BUTTON_PIN True \<noteq> 0)\<rparr>)"
  by (simp add: processLearnButton_def Let_def)

lemma processLearnButton_frame:
  "irCodeData (processLearnButton env s) = irCodeData s"
  "EEPROM (processLearnButton env s) = EEPROM s"
  "workLedState (processLearnButton env s) = workLedState s"
  "codes (processLearnButton env s) = codes s"
  "pins (processLearnButton env s) = pins s"
  by (simp_all add: processLearnButton_cases)

lemma processLearnLed_frame:
  "irCodeData (processLearnLed s) = irCodeData s"
  "EEPROM (processLearnLed s) = EEPROM s"
  "workLedState (processLearnLed s) = workLedState s"
  "codes (processLearnLed s) = codes s"
  "learnModeEnabled (processLearnLed s) = learnModeEnabled s"
  "learnButtonState (processLearnLed s) = learnButtonState s"
  by (simp_all add: processLearnLed_def digitalWrite_def)

lemma processWorkLed_frame:
  "irCodeData (processWorkLed s) = irCodeData s"
  "EEPROM (processWorkLed s) = EEPROM s"
  "workLedState (processWorkLed s) = workLedState s"
  "codes (processWorkLed s) = codes s"
  "learnModeEnabled (processWorkLed s) = learnModeEnabled s"
  "learnButtonState (processWorkLed s) = learnButtonState s"
  by (simp_all add: processWorkLed_def digitalWrite_def)

lemmas leds_frame = processLearnLed_frame processWorkLed_frame

lemma processCode_learn:
  "learnModeEnabled s \<Longrightarrow>
     processCode v s =
       s\<lparr>codes := codes s @ [v], irCodeData := v,
         EEPROM := saveToEeprom v IR_CODE_DATA_ADDRESS (EEPROM s), learnModeEnabled := False\<rparr>"
  by (simp add: processCode_def Let_def)

lemma processCode_normal:
  "\<not> learnModeEnabled s \<Longrightarrow>
     processCode v s =
       (if irCodeData s = v then s\<lparr>codes := codes s @ [v], workLedState := \<not> workLedState s\<rparr>
        else s\<lparr>codes := codes s @ [v]\<rparr>)"
  by (simp add: processCode_def Let_def)

lemma makeLong_erased: "makeLong (makeWord 0xFF 0xFF) (makeWord 0xFF 0xFF) = 0xFFFFFFFF"
  by (simp add: makeLong_def makeWord_def)

lemma saveToEeprom_accesses:
  "accesses (saveToEeprom v a ee) =
     accesses ee @ [EeWrite a (ucast (drop_bit 24 v)), EeWrite (a + 1) (ucast (drop_bit 16 v)),
                    EeWrite (a + 2) (ucast (drop_bit 8 v)), EeWrite (a + 3) (ucast v)]"
  by (simp add: saveToEeprom_bytes EEPROM_write_def)

lemma saveToEeprom_neq: "saveToEeprom v a ee \<noteq> ee"
proof
  assume "saveToEeprom v a ee = ee"
  then have "accesses (saveToEeprom v a ee) = accesses ee" by simp
  then show False by (simp add: saveToEeprom_accesses)
qed

lemma setup_sketch_flags:
  "\<not> learnButtonState (setup_sketch ee)" "\<not> learnModeEnabled (setup_sketch ee)"
  "\<not> workLedState (setup_sketch ee)" "codes (setup_sketch ee) = []"
  by (simp_all add: setup_sketch_def split: prod.split)

lemmas sketch_defs = loop_def processIr_def processCode_def processLearnLed_def
  processWorkLed_def digitalWrite_def processLearnButton_cases getButtonState_unfold
  setup_sketch_def loadFromEeprom_unfold saveToEeprom_bytes EEPROM_write_def
  IR_CODE_DATA_ADDRESS_def makeLong_erased Let_def

section \<open>Persistence\<close>

text \<open>
  Claim C1 (persistence round trip: after \<^verbatim>\<open>saveToEeprom(v, addr)\<close>, \<^verbatim>\<open>loadFromEeprom(addr)\<close>
  returns exactly \<open>v\<close>, for every 32-bit \<open>v\<close>). The code does not do this for a value whose
  bit 15 is set: saving \<open>0x00008000\<close> at address 0 of an erased EEPROM stores the bytes
  \<open>00 00 80 00\<close>, and loading them returns \<open>0xFFFF8000\<close>, because \<^verbatim>\<open>makeLong\<close> widens the
  negative \<^verbatim>\<open>int low\<close> with its sign. In the sketch: with the button held, the code
  \<open>0x00008000\<close> of a protocol other than RC6 is learnt as it is; a restart on the EEPROM
  this leaves loads \<open>0xFFFF8000\<close> as the trained code. The comments of the source
  describe the three macros as the conversion of a \<^verbatim>\<open>long\<close> into \<^verbatim>\<open>int\<close>s and back, and
  \<^verbatim>\<open>loadFromEeprom\<close> as reading the 4-byte integer from the persistent memory.
\<close>

theorem saveToEeprom_loadFromEeprom_sign_extends:
  "map (cells (saveToEeprom 0x00008000 0 erased_eeprom)) [0, 1, 2, 3] = [0x00, 0x00, 0x80, 0x00]
   \<and> fst (loadFromEeprom 0 (saveToEeprom 0x00008000 0 erased_eeprom)) = 0xFFFF8000
   \<and> fst (loadFromEeprom 0 (saveToEeprom 0x00008000 0 erased_eeprom)) \<noteq> 0x00008000
   \<and> irCodeData (run [button_held None,
          button_held (Some \<lparr>decode_type = 1, ir_value = 0x00008000\<rparr>)]
        (setup_sketch erased_eeprom)) = 0x00008000
   \<and> irCodeData (setup_sketch (EEPROM (run [button_held None,
          button_held (Some \<lparr>decode_type = 1, ir_value = 0x00008000\<rparr>)]
        (setup_sketch erased_eeprom)))) = 0xFFFF8000"
proof -
  have stored: "map (cells (saveToEeprom 0x00008000 0 ee)) [0, 1, 2, 3]
      = [0x00, 0x00, 0x80, 0x00]" for ee
    by (simp add: saveToEeprom_bytes EEPROM_write_def drop_bit_eq_div)
  have loaded: "fst (loadFromEeprom 0 (saveToEeprom 0x00008000 0 ee)) = 0xFFFF8000" for ee
    by (simp add: loadFromEeprom_saveToEeprom bit_iff_odd)
  have pressed: "loop (button_held None) (setup_sketch erased_eeprom) =
      (setup_sketch erased_eeprom)
        \<lparr>learnButtonState := True, learnModeEnabled := True,
         pins := (\<lambda>_. LOW)(LEARN_LED_PIN := HIGH, WORK_LED_PIN := LOW)\<rparr>"
    by (simp add: loop_def processIr_def processLearnLed_def processWorkLed_def
        digitalWrite_def processLearnButton_cases getButtonState_unfold button_held_def
        setup_sketch_def split: prod.split)
  have learnt: "run [button_held None,
        button_held (Some \<lparr>decode_type = 1, ir_value = 0x00008000\<rparr>)]
      (setup_sketch erased_eeprom) =
      (setup_sketch erased_eeprom)
        \<lparr>learnButtonState := True, learnModeEnabled := False,
         pins := (\<lambda>_. LOW)(LEARN_LED_PIN := HIGH, WORK_LED_PIN := LOW),
         codes := [0x00008000], irCodeData := 0x00008000,
         EEPROM := saveToEeprom 0x00008000 0 (EEPROM (setup_sketch erased_eeprom))\<rparr>"
    by (simp add: pressed)
      (simp add: loop_def processIr_def processCode_def processLearnLed_def processWorkLed_def
        digitalWrite_def processLearnButton_cases getButtonState_unfold button_held_def
        setup_sketch_def RC6_def IR_CODE_DATA_ADDRESS_def Let_def split: prod.split)
  have restart: "irCodeData (setup_sketch ee) = fst (loadFromEeprom 0 ee)" for ee
    by (simp add: setup_sketch_def IR_CODE_DATA_ADDRESS_def split: prod.split)
  show ?thesis
    by (simp only: stored restart learnt) (simp add: loaded)
qed

text \<open>
  Claim C7 (persisted layout): \<^verbatim>\<open>saveToEeprom(v, addr)\<close> writes the four bytes of \<open>v\<close> to
  \<open>addr\<close>, \<open>addr + 1\<close>, \<open>addr + 2\<close>, \<open>addr + 3\<close>, most significant byte first, in four
  writes and in this order, and leaves every other cell as it was; \<^verbatim>\<open>loadFromEeprom(addr)\<close>
  reads the same four addresses in the same order and changes no cell.
\<close>

theorem saveToEeprom_layout:
  "cells (saveToEeprom v a ee) =
     (cells ee)(a := ucast (drop_bit 24 v), a + 1 := ucast (drop_bit 16 v),
                a + 2 := ucast (drop_bit 8 v), a + 3 := ucast v)
   \<and> cells (saveToEeprom v a ee) a = ucast (drop_bit 24 v)
   \<and> cells (saveToEeprom v a ee) (a + 1) = ucast (drop_bit 16 v)
   \<and> cells (saveToEeprom v a ee) (a + 2) = ucast (drop_bit 8 v)
   \<and> cells (saveToEeprom v a ee) (a + 3) = ucast v
   \<and> accesses (saveToEeprom v a ee) =
       accesses ee @ [EeWrite a (ucast (drop_bit 24 v)), EeWrite (a + 1) (ucast (drop_bit 16 v)),
                      EeWrite (a + 2) (ucast (drop_bit 8 v)), EeWrite (a + 3) (ucast v)]
   \<and> accesses (snd (loadFromEeprom a ee)) =
       accesses ee @ [EeRead a, EeRead (a + 1), EeRead (a + 2), EeRead (a + 3)]
   \<and> cells (snd (loadFromEeprom a ee)) = cells ee"
  by (simp add: saveToEeprom_bytes loadFromEeprom_unfold EEPROM_write_def)

section \<open>Learning and matching a code\<close>

text \<open>
  Claim C2 (learn commit): when \<^verbatim>\<open>processCode\<close> is called with a value while the learn mode
  is enabled, afterwards the trained code is that value, the value is in the EEPROM (the
  store is the one \<^verbatim>\<open>saveToEeprom\<close> leaves, with the four bytes of the value at the
  addresses 0 to 3, most significant first), the learn mode is disabled, and the output
  state and the recorded button state are as before.
\<close>

theorem processCode_learn_commit:
  "learnModeEnabled s \<Longrightarrow>
     irCodeData (processCode v s) = v
     \<and> EEPROM (processCode v s) = saveToEeprom v IR_CODE_DATA_ADDRESS (EEPROM s)
     \<and> map (cells (EEPROM (processCode v s))) [0, 1, 2, 3] =
         [ucast (drop_bit 24 v), ucast (drop_bit 16 v), ucast (drop_bit 8 v), ucast v]
     \<and> \<not> learnModeEnabled (processCode v s)
     \<and> workLedState (processCode v s) = workLedState s
     \<and> learnButtonState (processCode v s) = learnButtonState s"
  by (simp add: processCode_def Let_def IR_CODE_DATA_ADDRESS_def saveToEeprom_bytes
      EEPROM_write_def)

theorem processCode_learn_commit_witness:
  "learnModeEnabled (example_state True True 0xFFFFFFFF)
   \<and> irCodeData (processCode 0xA5 (example_state True True 0xFFFFFFFF)) = 0xA5
   \<and> map (cells (EEPROM (processCode 0xA5 (example_state True True 0xFFFFFFFF)))) [0, 1, 2, 3]
       = [0, 0, 0, 0xA5]
   \<and> \<not> learnModeEnabled (processCode 0xA5 (example_state True True 0xFFFFFFFF))
   \<and> \<not> workLedState (processCode 0xA5 (example_state True True 0xFFFFFFFF))"
proof -
  have learn: "learnModeEnabled (example_state True True 0xFFFFFFFF)"
    by (simp add: example_state_def)
  show ?thesis
    using learn processCode_learn_commit [OF learn, of "0xA5"]
    by (simp add: example_defs drop_bit_eq_div saveToEeprom_bytes EEPROM_write_def
        IR_CODE_DATA_ADDRESS_def)
qed

text \<open>
  Claim C3 (normal mode): when \<^verbatim>\<open>processCode\<close> is called with a value while the learn mode
  is disabled, the output state is flipped, once, when the value equals the trained code,
  and is as before when it differs; the trained code, the mode, the recorded button state
  and the EEPROM do not change in either case.
\<close>

theorem processCode_normal_mode:
  "\<not> learnModeEnabled s \<Longrightarrow>
     processCode v s =
       (if v = irCodeData s then s\<lparr>workLedState := \<not> workLedState s, codes := codes s @ [v]\<rparr>
        else s\<lparr>codes := codes s @ [v]\<rparr>)
     \<and> workLedState (processCode v s) =
         (if v = irCodeData s then \<not> workLedState s else workLedState s)
     \<and> irCodeData (processCode v s) = irCodeData s
     \<and> learnModeEnabled (processCode v s) = learnModeEnabled s
     \<and> learnButtonState (processCode v s) = learnButtonState s
     \<and> EEPROM (processCode v s) = EEPROM s"
  by (auto simp add: processCode_def Let_def)

theorem processCode_normal_mode_witness:
  "\<not> learnModeEnabled (example_state False False 0xA5)
   \<and> workLedState (processCode 0xA5 (example_state False False 0xA5))
   \<and> processCode 0x5A (example_state False False 0xA5)
       = (example_state False False 0xA5)\<lparr>codes := [0x5A]\<rparr>"
  using processCode_normal_mode [of "example_state False False 0xA5" "0xA5"]
    processCode_normal_mode [of "example_state False False 0xA5" "0x5A"]
  by (simp add: example_state_def)

text \<open>
  Claim C6 (abort learn): a debounced sample "released" while the recorded button state is
  "pressed" and the learn mode is still enabled records the release and disables the learn
  mode, and changes nothing else: the trained code, the EEPROM and the output state are as
  before. A sample -1 (indeterminate) leaves the whole state as it is.
\<close>

theorem processLearnButton_abort:
  "(learnButtonState s \<and> learnModeEnabled s
      \<and> getButtonState env LEARN_BUTTON_PIN True = 0 \<longrightarrow>
      processLearnButton env s = s\<lparr>learnButtonState := False, learnModeEnabled := False\<rparr>
      \<and> \<not> learnModeEnabled (processLearnButton env s)
      \<and> irCodeData (processLearnButton env s) = irCodeData s
      \<and> EEPROM (processLearnButton env s) = EEPROM s
      \<and> workLedState (processLearnButton env s) = workLedState s)
   \<and> (getButtonState env LEARN_BUTTON_PIN True = - 1 \<longrightarrow> processLearnButton env s = s)"
  by (simp add: processLearnButton_cases)

theorem processLearnButton_abort_witness:
  "getButtonState (\<lambda>_ _. HIGH) LEARN_BUTTON_PIN True = 0
   \<and> processLearnButton (\<lambda>_ _. HIGH) (example_state True True 0xA5)
       = example_state False False 0xA5
   \<and> getButtonState (\<lambda>_ k. if k = 2 then LOW else HIGH) LEARN_BUTTON_PIN True = - 1
   \<and> processLearnButton (\<lambda>_ k. if k = 2 then LOW else HIGH) (example_state True True 0xA5)
       = example_state True True 0xA5"
  using processLearnButton_abort [of "example_state True True 0xA5" "\<lambda>_ _. HIGH"]
    processLearnButton_abort [of "example_state True True 0xA5" "\<lambda>_ k. if k = 2 then LOW else HIGH"]
  by (simp add: example_state_def getButtonState_unfold)

section \<open>The normalisation of a decoded code\<close>

lemma clear_toggle_bit: "bit (v AND NOT 0x8000 :: c_long) n \<longleftrightarrow> bit v n \<and> n \<noteq> 15"
proof -
  have e: "(0x8000 :: c_long) = 2 ^ 15" by simp
  have "bit (v AND NOT (2 ^ 15) :: c_long) n \<longleftrightarrow> bit v n \<and> n \<noteq> 15"
    by (simp only: bit_and_iff bit_not_iff bit_exp_iff) (auto dest: bit_imp_le_length)
  then show ?thesis
    by (simp only: e)
qed

lemma clear_toggle_bit_ne: "v AND NOT 0x8000 \<noteq> (0xFFFFFFFF :: c_long)"
proof
  assume "v AND NOT 0x8000 = 0xFFFFFFFF"
  then have "bit (v AND NOT 0x8000) 15 \<longleftrightarrow> bit (0xFFFFFFFF :: c_long) 15"
    by (simp only:)
  then show False
    by (simp only: clear_toggle_bit) simp
qed

lemma processIr_Some:
  "processIr (Some irresult) s =
     (if ir_value irresult = 0xFFFFFFFF then s
      else if decode_type irresult = RC6 then processCode (ir_value irresult AND NOT 0x8000) s
      else processCode (ir_value irresult) s)"
  unfolding processIr_def Let_def by (auto simp only: option.case split: if_splits)

lemma codes_processCode: "codes (processCode v s) = codes s @ [v]"
  by (simp add: processCode_def Let_def)

text \<open>
  Claim C4 (normaliser): for a decoded result, \<^verbatim>\<open>processIr\<close> does nothing at all when the
  raw value is \<open>0xFFFFFFFF\<close>, whatever the protocol tag (the state, and with it the history
  of the calls of \<^verbatim>\<open>processCode\<close>, is unchanged); for the tag \<^verbatim>\<open>RC6\<close> it calls
  \<^verbatim>\<open>processCode\<close> once, with the raw value with bit 15 cleared and every other bit kept; for
  any other tag it calls \<^verbatim>\<open>processCode\<close> once with the raw value.
\<close>

theorem processIr_normalize:
  "processIr (Some irresult) s =
     (if ir_value irresult = 0xFFFFFFFF then s
      else if decode_type irresult = RC6 then processCode (ir_value irresult AND NOT 0x8000) s
      else processCode (ir_value irresult) s)
   \<and> codes (processIr (Some irresult) s) =
     (if ir_value irresult = 0xFFFFFFFF then codes s
      else if decode_type irresult = RC6 then codes s @ [ir_value irresult AND NOT 0x8000]
      else codes s @ [ir_value irresult])
   \<and> (bit (ir_value irresult AND NOT 0x8000) n \<longleftrightarrow> bit (ir_value irresult) n \<and> n \<noteq> 15)"
proof (intro conjI)
  show "processIr (Some irresult) s =
     (if ir_value irresult = 0xFFFFFFFF then s
      else if decode_type irresult = RC6 then processCode (ir_value irresult AND NOT 0x8000) s
      else processCode (ir_value irresult) s)"
    by (rule processIr_Some)
  show "codes (processIr (Some irresult) s) =
     (if ir_value irresult = 0xFFFFFFFF then codes s
      else if decode_type irresult = RC6 then codes s @ [ir_value irresult AND NOT 0x8000]
      else codes s @ [ir_value irresult])"
    by (simp only: processIr_Some codes_processCode if_distrib [of codes] cong: if_cong)
  show "bit (ir_value irresult AND NOT 0x8000) n \<longleftrightarrow> bit (ir_value irresult) n \<and> n \<noteq> 15"
    by (rule clear_toggle_bit)
qed

theorem processIr_normalize_witness:
  "processIr (Some \<lparr>decode_type = RC6, ir_value = 0xFFFFFFFF\<rparr>) (example_state False False 0xA5)
     = example_state False False 0xA5
   \<and> codes (processIr (Some \<lparr>decode_type = RC6, ir_value = 0x80A5\<rparr>)
        (example_state False False 0xA5)) = [0xA5]
   \<and> codes (processIr (Some \<lparr>decode_type = 1, ir_value = 0x80A5\<rparr>)
        (example_state False False 0xA5)) = [0x80A5]"
  using processIr_normalize [of "\<lparr>decode_type = RC6, ir_value = 0xFFFFFFFF\<rparr>"
      "example_state False False 0xA5" 15]
    processIr_normalize [of "\<lparr>decode_type = RC6, ir_value = 0x80A5\<rparr>"
      "example_state False False 0xA5" 15]
    processIr_normalize [of "\<lparr>decode_type = 1, ir_value = 0x80A5\<rparr>"
      "example_state False False 0xA5" 15]
  by (simp add: example_defs RC6_def codes_processCode)

section \<open>One pass of the loop\<close>

lemma processIr_None: "processIr None s = s"
  by (simp add: processIr_def)

text \<open>The argument of the call of processCode that processIr makes, if it makes one.\<close>

lemma processIr_cases:
  obtains (idle) "processIr dec s = s"
  | (call) v where "v \<noteq> 0xFFFFFFFF" "processIr dec s = processCode v s"
proof (cases dec)
  case None
  then show ?thesis using idle by (simp add: processIr_None)
next
  case (Some r)
  show ?thesis
  proof (cases "ir_value r = 0xFFFFFFFF")
    case True
    with Some show ?thesis using idle by (simp add: processIr_Some)
  next
    case nonsentinel: False
    show ?thesis
    proof (cases "decode_type r = RC6")
      case True
      with Some nonsentinel have "processIr dec s = processCode (ir_value r AND NOT 0x8000) s"
        by (simp only: processIr_Some simp_thms if_True if_False)
      then show ?thesis using call clear_toggle_bit_ne by blast
    next
      case False
      with Some nonsentinel have "processIr dec s = processCode (ir_value r) s"
        by (simp only: processIr_Some simp_thms if_True if_False)
      then show ?thesis using call nonsentinel by blast
    qed
  qed
qed

lemma loop_cases:
  obtains (idle) "irCodeData (loop inp s) = irCodeData s" "EEPROM (loop inp s) = EEPROM s"
      "codes (loop inp s) = codes s" "workLedState (loop inp s) = workLedState s"
      "learnModeEnabled (loop inp s) = learnModeEnabled (processLearnButton (gpio inp) s)"
  | (learn) v where "v \<noteq> 0xFFFFFFFF" "learnModeEnabled (processLearnButton (gpio inp) s)"
      "irCodeData (loop inp s) = v"
      "EEPROM (loop inp s) = saveToEeprom v IR_CODE_DATA_ADDRESS (EEPROM s)"
      "codes (loop inp s) = codes s @ [v]" "workLedState (loop inp s) = workLedState s"
      "\<not> learnModeEnabled (loop inp s)"
  | (normal) v where "v \<noteq> 0xFFFFFFFF" "\<not> learnModeEnabled (processLearnButton (gpio inp) s)"
      "irCodeData (loop inp s) = irCodeData s" "EEPROM (loop inp s) = EEPROM s"
      "codes (loop inp s) = codes s @ [v]"
      "workLedState (loop inp s) = (if irCodeData s = v then \<not> workLedState s else workLedState s)"
      "\<not> learnModeEnabled (loop inp s)"
proof -
  define s1 where "s1 = processWorkLed (processLearnLed (processLearnButton (gpio inp) s))"
  have s1: "irCodeData s1 = irCodeData s" "EEPROM s1 = EEPROM s" "codes s1 = codes s"
    "workLedState s1 = workLedState s"
    "learnModeEnabled s1 = learnModeEnabled (processLearnButton (gpio inp) s)"
    unfolding s1_def by (simp_all add: leds_frame processLearnButton_frame)
  have l: "loop inp s = processIr (ir inp) s1"
    by (simp add: loop_def s1_def)
  show ?thesis
  proof (cases "ir inp" s1 rule: processIr_cases)
    case idle
    then have "loop inp s = s1" by (simp only: l)
    then show ?thesis using s1 that(1) by simp
  next
    case (call v)
    then have lv: "loop inp s = processCode v s1" by (simp only: l)
    show ?thesis
    proof (cases "learnModeEnabled s1")
      case True
      have "loop inp s = s1\<lparr>codes := codes s1 @ [v], irCodeData := v,
         EEPROM := saveToEeprom v IR_CODE_DATA_ADDRESS (EEPROM s1), learnModeEnabled := False\<rparr>"
        unfolding lv by (rule processCode_learn [OF True])
      then have "irCodeData (loop inp s) = v"
        "EEPROM (loop inp s) = saveToEeprom v IR_CODE_DATA_ADDRESS (EEPROM s)"
        "codes (loop inp s) = codes s @ [v]" "workLedState (loop inp s) = workLedState s"
        "\<not> learnModeEnabled (loop inp s)"
        by (simp_all add: s1)
      moreover have "learnModeEnabled (processLearnButton (gpio inp) s)"
        using True by (simp add: s1)
      ultimately show ?thesis
        using that(2) [of v] call(1) by blast
    next
      case False
      have "loop inp s = (if irCodeData s1 = v
          then s1\<lparr>codes := codes s1 @ [v], workLedState := \<not> workLedState s1\<rparr>
          else s1\<lparr>codes := codes s1 @ [v]\<rparr>)"
        unfolding lv by (rule processCode_normal [OF False])
      then have "irCodeData (loop inp s) = irCodeData s" "EEPROM (loop inp s) = EEPROM s"
        "codes (loop inp s) = codes s @ [v]"
        "workLedState (loop inp s) = (if irCodeData s = v then \<not> workLedState s else workLedState s)"
        "\<not> learnModeEnabled (loop inp s)"
        using False by (simp_all add: s1)
      moreover have "\<not> learnModeEnabled (processLearnButton (gpio inp) s)"
        using False by (simp add: s1)
      ultimately show ?thesis
        using that(3) [of v] call(1) by blast
    qed
  qed
qed

text \<open>
  Claim C8 (write-through of the trained code): none of \<^verbatim>\<open>processLearnButton\<close>,
  \<^verbatim>\<open>processLearnLed\<close>, \<^verbatim>\<open>processWorkLed\<close> and \<^verbatim>\<open>processCode\<close> in normal mode writes the
  trained code or the EEPROM; \<^verbatim>\<open>processCode\<close> in learn mode sets the trained code to its
  argument and makes one call of \<^verbatim>\<open>saveToEeprom\<close> with it (four byte writes). For a pass
  of the loop: when the trained code or the EEPROM differs afterwards, the learn mode was
  enabled when the decoder was polled, \<^verbatim>\<open>processCode\<close> was called once, with the new
  trained code, and the EEPROM is the old one after one \<^verbatim>\<open>saveToEeprom\<close> of that code;
  and a pass without a call of \<^verbatim>\<open>processCode\<close> changes neither.
\<close>

theorem trained_code_write_through:
  "irCodeData (processLearnButton env s) = irCodeData s
   \<and> EEPROM (processLearnButton env s) = EEPROM s
   \<and> irCodeData (processLearnLed s) = irCodeData s \<and> EEPROM (processLearnLed s) = EEPROM s
   \<and> irCodeData (processWorkLed s) = irCodeData s \<and> EEPROM (processWorkLed s) = EEPROM s
   \<and> (\<not> learnModeEnabled s \<longrightarrow>
        irCodeData (processCode v s) = irCodeData s \<and> EEPROM (processCode v s) = EEPROM s)
   \<and> (learnModeEnabled s \<longrightarrow>
        irCodeData (processCode v s) = v
        \<and> EEPROM (processCode v s) = saveToEeprom v IR_CODE_DATA_ADDRESS (EEPROM s)
        \<and> accesses (EEPROM (processCode v s)) =
            accesses (EEPROM s) @
              [EeWrite 0 (ucast (drop_bit 24 v)), EeWrite 1 (ucast (drop_bit 16 v)),
               EeWrite 2 (ucast (drop_bit 8 v)), EeWrite 3 (ucast v)])
   \<and> (irCodeData (loop inp s) \<noteq> irCodeData s \<or> EEPROM (loop inp s) \<noteq> EEPROM s \<longrightarrow>
        learnModeEnabled (processLearnButton (gpio inp) s)
        \<and> codes (loop inp s) = codes s @ [irCodeData (loop inp s)]
        \<and> EEPROM (loop inp s) =
            saveToEeprom (irCodeData (loop inp s)) IR_CODE_DATA_ADDRESS (EEPROM s))
   \<and> (codes (loop inp s) = codes s \<longrightarrow>
        irCodeData (loop inp s) = irCodeData s \<and> EEPROM (loop inp s) = EEPROM s)"
proof -
  have button: "irCodeData (processLearnButton env s) = irCodeData s
      \<and> EEPROM (processLearnButton env s) = EEPROM s"
    by (simp add: processLearnButton_frame)
  have leds: "irCodeData (processLearnLed s) = irCodeData s \<and> EEPROM (processLearnLed s) = EEPROM s
      \<and> irCodeData (processWorkLed s) = irCodeData s \<and> EEPROM (processWorkLed s) = EEPROM s"
    by (simp add: leds_frame)
  have normal: "\<not> learnModeEnabled s \<longrightarrow>
      irCodeData (processCode v s) = irCodeData s \<and> EEPROM (processCode v s) = EEPROM s"
    by (simp add: processCode_normal)
  have learn: "learnModeEnabled s \<longrightarrow>
        irCodeData (processCode v s) = v
        \<and> EEPROM (processCode v s) = saveToEeprom v IR_CODE_DATA_ADDRESS (EEPROM s)
        \<and> accesses (EEPROM (processCode v s)) =
            accesses (EEPROM s) @
              [EeWrite 0 (ucast (drop_bit 24 v)), EeWrite 1 (ucast (drop_bit 16 v)),
               EeWrite 2 (ucast (drop_bit 8 v)), EeWrite 3 (ucast v)]"
    by (simp add: processCode_learn saveToEeprom_accesses IR_CODE_DATA_ADDRESS_def)
  have changed: "irCodeData (loop inp s) \<noteq> irCodeData s \<or> EEPROM (loop inp s) \<noteq> EEPROM s \<longrightarrow>
        learnModeEnabled (processLearnButton (gpio inp) s)
        \<and> codes (loop inp s) = codes s @ [irCodeData (loop inp s)]
        \<and> EEPROM (loop inp s) =
            saveToEeprom (irCodeData (loop inp s)) IR_CODE_DATA_ADDRESS (EEPROM s)"
    by (cases inp s rule: loop_cases) simp_all
  have quiet: "codes (loop inp s) = codes s \<longrightarrow>
        irCodeData (loop inp s) = irCodeData s \<and> EEPROM (loop inp s) = EEPROM s"
    by (cases inp s rule: loop_cases) simp_all
  from button leds normal learn changed quiet show ?thesis
    by blast
qed

theorem trained_code_write_through_witness:
  "irCodeData (loop (button_held (Some \<lparr>decode_type = 1, ir_value = 0xA5\<rparr>))
      (example_state True True 0xFFFFFFFF)) = 0xA5
   \<and> learnModeEnabled (processLearnButton
        (gpio (button_held (Some \<lparr>decode_type = 1, ir_value = 0xA5\<rparr>)))
        (example_state True True 0xFFFFFFFF))
   \<and> codes (loop (button_held (Some \<lparr>decode_type = 1, ir_value = 0xA5\<rparr>))
        (example_state True True 0xFFFFFFFF)) = [0xA5]
   \<and> accesses (EEPROM (loop (button_held (Some \<lparr>decode_type = 1, ir_value = 0xA5\<rparr>))
        (example_state True True 0xFFFFFFFF)))
       = [EeWrite 0 0, EeWrite 1 0, EeWrite 2 0, EeWrite 3 0xA5]
   \<and> EEPROM (loop (button_released None) (example_state False False 0xA5)) = erased_eeprom"
  using trained_code_write_through [of "\<lambda>_ _. LOW" "example_state True True 0xFFFFFFFF" "0xA5"
      "button_held (Some \<lparr>decode_type = 1, ir_value = 0xA5\<rparr>)"]
    trained_code_write_through [of "\<lambda>_ _. HIGH" "example_state False False 0xA5" "0xA5"
      "button_released None"]
  by (simp add: example_defs sketch_defs RC6_def drop_bit_eq_div)

section \<open>Runs of the loop\<close>

lemma sentinel_not_in_codes_loop:
  "0xFFFFFFFF \<notin> set (codes s) \<Longrightarrow> 0xFFFFFFFF \<notin> set (codes (loop inp s))"
  by (cases inp s rule: loop_cases) simp_all

lemma sentinel_not_in_codes_run:
  "0xFFFFFFFF \<notin> set (codes s) \<Longrightarrow> 0xFFFFFFFF \<notin> set (codes (run inps s))"
  by (induction inps arbitrary: s) (simp_all add: sentinel_not_in_codes_loop)

lemma run_append: "run (xs @ ys) s = run ys (run xs s)"
  by (induction xs arbitrary: s) simp_all

lemma run_take_drop: "run (drop k inps) (run (take k inps) s) = run inps s"
  using run_append [of "take k inps" "drop k inps" s] by simp

lemma trained_stays_trained_loop:
  "irCodeData s \<noteq> 0xFFFFFFFF \<Longrightarrow> irCodeData (loop inp s) \<noteq> 0xFFFFFFFF"
  by (cases inp s rule: loop_cases) simp_all

lemma trained_stays_trained_run:
  "irCodeData s \<noteq> 0xFFFFFFFF \<Longrightarrow> irCodeData (run inps s) \<noteq> 0xFFFFFFFF"
  by (induction inps arbitrary: s) (simp_all add: trained_stays_trained_loop)

lemma untrained_after_loop:
  assumes "irCodeData (loop inp s) = 0xFFFFFFFF"
  shows "irCodeData s = 0xFFFFFFFF \<and> workLedState (loop inp s) = workLedState s
    \<and> EEPROM (loop inp s) = EEPROM s"
proof (cases inp s rule: loop_cases)
  case idle
  with assms show ?thesis by simp
next
  case (learn v)
  with assms show ?thesis by simp
next
  case (normal v)
  with assms show ?thesis by auto
qed

lemma untrained_after_run:
  "irCodeData (run inps s) = 0xFFFFFFFF \<Longrightarrow>
     irCodeData s = 0xFFFFFFFF \<and> workLedState (run inps s) = workLedState s
     \<and> EEPROM (run inps s) = EEPROM s"
proof (induction inps arbitrary: s)
  case Nil
  then show ?case by simp
next
  case (Cons inp inps)
  from Cons.prems have "irCodeData (run inps (loop inp s)) = 0xFFFFFFFF"
    by simp
  from Cons.IH [OF this] have rest: "irCodeData (loop inp s) = 0xFFFFFFFF"
    "workLedState (run inps (loop inp s)) = workLedState (loop inp s)"
    "EEPROM (run inps (loop inp s)) = EEPROM (loop inp s)"
    by simp_all
  from untrained_after_loop [OF rest(1)] rest(2,3) show ?case
    by simp
qed

lemma untrained_prefix:
  assumes "irCodeData (run inps s) = 0xFFFFFFFF"
  shows "irCodeData (run (take k inps) s) = 0xFFFFFFFF"
proof (rule ccontr)
  assume "irCodeData (run (take k inps) s) \<noteq> 0xFFFFFFFF"
  then have "irCodeData (run (drop k inps) (run (take k inps) s)) \<noteq> 0xFFFFFFFF"
    by (rule trained_stays_trained_run)
  with assms show False
    by (simp add: run_take_drop)
qed

lemma setup_sketch_erased:
  assumes "\<forall>a\<in>{0, 1, 2, 3}. cells ee a = 0xFF"
  shows "irCodeData (setup_sketch ee) = 0xFFFFFFFF"
proof -
  from assms have "cells ee 0 = 0xFF" "cells ee 1 = 0xFF" "cells ee 2 = 0xFF" "cells ee 3 = 0xFF"
    by simp_all
  then show ?thesis
    by (simp add: setup_sketch_def loadFromEeprom_unfold IR_CODE_DATA_ADDRESS_def makeLong_erased)
qed

text \<open>
  Claim C9 (the sentinel never matches): in every run of the loop after start-up, no call of
  \<^verbatim>\<open>processCode\<close> has the argument \<open>0xFFFFFFFF\<close>. When the four cells of the code are
  erased (\<open>0xFF\<close>), start-up loads the trained code \<open>0xFFFFFFFF\<close>. And in every run after
  which the trained code is \<open>0xFFFFFFFF\<close>, whatever the button and the decoder did, the
  output state is off and the EEPROM is as start-up left it (no access since), and the
  same holds after every prefix of the run: the trained code was \<open>0xFFFFFFFF\<close> all along,
  the output state was never switched on and the EEPROM was never accessed.
\<close>

theorem sentinel_never_matches:
  "0xFFFFFFFF \<notin> set (codes (run inps (setup_sketch ee)))
   \<and> ((\<forall>a\<in>{0, 1, 2, 3}. cells ee a = 0xFF) \<longrightarrow> irCodeData (setup_sketch ee) = 0xFFFFFFFF)
   \<and> (irCodeData (run inps (setup_sketch ee)) = 0xFFFFFFFF \<longrightarrow>
        \<not> workLedState (run inps (setup_sketch ee))
        \<and> EEPROM (run inps (setup_sketch ee)) = EEPROM (setup_sketch ee)
        \<and> (\<forall>k. irCodeData (run (take k inps) (setup_sketch ee)) = 0xFFFFFFFF
              \<and> \<not> workLedState (run (take k inps) (setup_sketch ee))
              \<and> EEPROM (run (take k inps) (setup_sketch ee)) = EEPROM (setup_sketch ee)))"
proof (intro conjI impI allI)
  show "0xFFFFFFFF \<notin> set (codes (run inps (setup_sketch ee)))"
    by (rule sentinel_not_in_codes_run) (simp add: setup_sketch_flags)
next
  assume "\<forall>a\<in>{0, 1, 2, 3}. cells ee a = 0xFF"
  then show "irCodeData (setup_sketch ee) = 0xFFFFFFFF"
    by (rule setup_sketch_erased)
next
  assume final: "irCodeData (run inps (setup_sketch ee)) = 0xFFFFFFFF"
  from untrained_after_run [OF final]
  show "\<not> workLedState (run inps (setup_sketch ee))"
    and "EEPROM (run inps (setup_sketch ee)) = EEPROM (setup_sketch ee)"
    by (simp_all add: setup_sketch_flags)
  fix k
  from final show prefix: "irCodeData (run (take k inps) (setup_sketch ee)) = 0xFFFFFFFF"
    by (rule untrained_prefix)
  from untrained_after_run [OF prefix]
  show "\<not> workLedState (run (take k inps) (setup_sketch ee))"
    and "EEPROM (run (take k inps) (setup_sketch ee)) = EEPROM (setup_sketch ee)"
    by (simp_all add: setup_sketch_flags)
qed

theorem sentinel_never_matches_witness:
  "learnModeEnabled (run [button_held None] (setup_sketch erased_eeprom))
   \<and> irCodeData (run
        [button_held None, button_released None,
         button_released (Some \<lparr>decode_type = RC6, ir_value = 0xFFFFFFFF\<rparr>),
         button_released (Some \<lparr>decode_type = RC6, ir_value = 0xFFFF7FFF\<rparr>),
         button_released (Some \<lparr>decode_type = 1, ir_value = 0xFFFFFFFF\<rparr>)]
        (setup_sketch erased_eeprom)) = 0xFFFFFFFF
   \<and> \<not> workLedState (run
        [button_held None, button_released None,
         button_released (Some \<lparr>decode_type = RC6, ir_value = 0xFFFFFFFF\<rparr>),
         button_released (Some \<lparr>decode_type = RC6, ir_value = 0xFFFF7FFF\<rparr>),
         button_released (Some \<lparr>decode_type = 1, ir_value = 0xFFFFFFFF\<rparr>)]
        (setup_sketch erased_eeprom))
   \<and> EEPROM (run
        [button_held None, button_released None,
         button_released (Some \<lparr>decode_type = RC6, ir_value = 0xFFFFFFFF\<rparr>),
         button_released (Some \<lparr>decode_type = RC6, ir_value = 0xFFFF7FFF\<rparr>),
         button_released (Some \<lparr>decode_type = 1, ir_value = 0xFFFFFFFF\<rparr>)]
        (setup_sketch erased_eeprom)) = EEPROM (setup_sketch erased_eeprom)
   \<and> codes (run
        [button_held None, button_released None,
         button_released (Some \<lparr>decode_type = RC6, ir_value = 0xFFFFFFFF\<rparr>),
         button_released (Some \<lparr>decode_type = RC6, ir_value = 0xFFFF7FFF\<rparr>),
         button_released (Some \<lparr>decode_type = 1, ir_value = 0xFFFFFFFF\<rparr>)]
        (setup_sketch erased_eeprom)) = [0xFFFF7FFF]"
proof -
  let ?inps = "[button_held None, button_released None,
         button_released (Some \<lparr>decode_type = RC6, ir_value = 0xFFFFFFFF\<rparr>),
         button_released (Some \<lparr>decode_type = RC6, ir_value = 0xFFFF7FFF\<rparr>),
         button_released (Some \<lparr>decode_type = 1, ir_value = 0xFFFFFFFF\<rparr>)]"
  have pressed: "learnModeEnabled (run [button_held None] (setup_sketch erased_eeprom))"
    by (simp add: example_defs sketch_defs)
  have untrained: "irCodeData (run ?inps (setup_sketch erased_eeprom)) = 0xFFFFFFFF"
    by (simp add: example_defs sketch_defs)
  have calls: "codes (run ?inps (setup_sketch erased_eeprom)) = [0xFFFF7FFF]"
    by (simp add: example_defs sketch_defs)
  from sentinel_never_matches [of ?inps erased_eeprom] untrained
  have "\<not> workLedState (run ?inps (setup_sketch erased_eeprom))
      \<and> EEPROM (run ?inps (setup_sketch erased_eeprom)) = EEPROM (setup_sketch erased_eeprom)"
    by blast
  with pressed untrained calls show ?thesis
    by blast
qed

lemma learnButtonState_processCode: "learnButtonState (processCode v s) = learnButtonState s"
  by (simp add: processCode_def Let_def)

lemma learnButtonState_loop:
  "learnButtonState (loop inp s) = learnButtonState (processLearnButton (gpio inp) s)"
proof -
  have "learnButtonState (processIr dec t) = learnButtonState t" for dec t
    by (cases dec t rule: processIr_cases) (simp_all add: learnButtonState_processCode)
  then show ?thesis
    by (simp add: loop_def leds_frame)
qed

lemma learnModeEnabled_loop:
  "learnModeEnabled (loop inp s) \<Longrightarrow> learnModeEnabled (processLearnButton (gpio inp) s)"
  by (cases inp s rule: loop_cases) simp_all

lemma learn_implies_pressed_button:
  "(learnModeEnabled s \<longrightarrow> learnButtonState s) \<Longrightarrow>
   learnModeEnabled (processLearnButton env s) \<longrightarrow> learnButtonState (processLearnButton env s)"
  by (simp add: processLearnButton_cases)

lemma learn_implies_pressed_loop:
  "(learnModeEnabled s \<longrightarrow> learnButtonState s) \<Longrightarrow>
   learnModeEnabled (loop inp s) \<longrightarrow> learnButtonState (loop inp s)"
  using learn_implies_pressed_button [of s "gpio inp"] learnModeEnabled_loop [of inp s]
  by (auto simp add: learnButtonState_loop)

lemma learn_implies_pressed_run:
  "(learnModeEnabled s \<longrightarrow> learnButtonState s) \<Longrightarrow>
   learnModeEnabled (run inps s) \<longrightarrow> learnButtonState (run inps s)"
proof (induction inps arbitrary: s)
  case Nil
  then show ?case by simp
next
  case (Cons inp inps)
  from Cons.prems have "learnModeEnabled (loop inp s) \<longrightarrow> learnButtonState (loop inp s)"
    by (rule learn_implies_pressed_loop)
  then have "learnModeEnabled (run inps (loop inp s)) \<longrightarrow> learnButtonState (run inps (loop inp s))"
    by (rule Cons.IH)
  then show ?case by simp
qed

lemma processLearnButton_not_released:
  assumes "getButtonState env LEARN_BUTTON_PIN True \<noteq> 0" and "learnButtonState s"
  shows "processLearnButton env s = s"
  using assms getButtonState_pullUp_cases [of env LEARN_BUTTON_PIN]
  by (auto simp add: processLearnButton_cases)

lemma held_after_commit_loop:
  assumes "getButtonState (gpio inp) LEARN_BUTTON_PIN True \<noteq> 0"
    and "learnButtonState s" and "\<not> learnModeEnabled s"
  shows "learnButtonState (loop inp s) \<and> \<not> learnModeEnabled (loop inp s)"
proof -
  have same: "processLearnButton (gpio inp) s = s"
    using assms(1,2) by (rule processLearnButton_not_released)
  have "learnButtonState (loop inp s)"
    using assms(2) by (simp add: learnButtonState_loop same)
  moreover have "\<not> learnModeEnabled (loop inp s)"
    using learnModeEnabled_loop [of inp s] assms(3) by (auto simp add: same)
  ultimately show ?thesis by simp
qed

lemma held_after_commit_run:
  assumes "\<forall>inp\<in>set inps. getButtonState (gpio inp) LEARN_BUTTON_PIN True \<noteq> 0"
    and "learnButtonState s" and "\<not> learnModeEnabled s"
  shows "learnButtonState (run inps s) \<and> \<not> learnModeEnabled (run inps s)"
  using assms
proof (induction inps arbitrary: s)
  case Nil
  then show ?case by simp
next
  case (Cons inp inps)
  from Cons.prems have "learnButtonState (loop inp s) \<and> \<not> learnModeEnabled (loop inp s)"
    by (intro held_after_commit_loop) simp_all
  moreover from Cons.prems
  have "\<forall>i\<in>set inps. getButtonState (gpio i) LEARN_BUTTON_PIN True \<noteq> 0"
    by simp
  ultimately have "learnButtonState (run inps (loop inp s))
      \<and> \<not> learnModeEnabled (run inps (loop inp s))"
    using Cons.IH [of "loop inp s"] by blast
  then show ?case by simp
qed

lemma commit_with_button_held:
  assumes "getButtonState (gpio inp) LEARN_BUTTON_PIN True \<noteq> 0"
    and "learnButtonState s" and "learnModeEnabled s"
    and "ir inp = Some r" and "ir_value r \<noteq> 0xFFFFFFFF"
  shows "learnButtonState (loop inp s) \<and> \<not> learnModeEnabled (loop inp s)
    \<and> irCodeData (loop inp s) =
        (if decode_type r = RC6 then ir_value r AND NOT 0x8000 else ir_value r)"
proof -
  define v where "v = (if decode_type r = RC6 then ir_value r AND NOT 0x8000 else ir_value r)"
  define s1 where "s1 = processWorkLed (processLearnLed s)"
  have same: "processLearnButton (gpio inp) s = s"
    using assms(1,2) by (rule processLearnButton_not_released)
  have s1: "learnModeEnabled s1" "learnButtonState s1"
    using assms(2,3) by (simp_all add: s1_def leds_frame)
  have "processIr (Some r) s1 = processCode v s1"
    using assms(5) unfolding v_def by (simp only: processIr_Some if_False if_distrib [of "\<lambda>x. processCode x s1"])
  then have "loop inp s = processCode v s1"
    by (simp add: loop_def same assms(4) s1_def)
  then have "loop inp s = s1\<lparr>codes := codes s1 @ [v], irCodeData := v,
         EEPROM := saveToEeprom v IR_CODE_DATA_ADDRESS (EEPROM s1), learnModeEnabled := False\<rparr>"
    by (simp only: processCode_learn [OF s1(1)])
  then show ?thesis
    using s1(2) by (simp add: v_def)
qed

lemma release_after_commit:
  assumes "getButtonState (gpio inp) LEARN_BUTTON_PIN True = 0"
    and "learnButtonState s" and "\<not> learnModeEnabled s"
  shows "processLearnButton (gpio inp) s = s\<lparr>learnButtonState := False\<rparr>
    \<and> \<not> learnButtonState (loop inp s) \<and> \<not> learnModeEnabled (loop inp s)
    \<and> irCodeData (loop inp s) = irCodeData s \<and> EEPROM (loop inp s) = EEPROM s"
proof -
  have edge: "processLearnButton (gpio inp) s = s\<lparr>learnButtonState := False\<rparr>"
    using assms by (simp add: processLearnButton_cases)
  have "\<not> learnButtonState (loop inp s)"
    by (simp add: learnButtonState_loop edge)
  moreover have normal: "\<not> learnModeEnabled (processLearnButton (gpio inp) s)"
    using assms(3) by (simp add: edge)
  then have "\<not> learnModeEnabled (loop inp s)"
    using learnModeEnabled_loop [of inp s] by blast
  moreover have "irCodeData (loop inp s) = irCodeData s \<and> EEPROM (loop inp s) = EEPROM s"
    using normal by (cases inp s rule: loop_cases) simp_all
  ultimately show ?thesis
    using edge by simp
qed

text \<open>
  Claim C10 (learn mode implies a pressed button): after start-up and any number of passes
  of the loop, an enabled learn mode implies that the recorded button state is "pressed";
  every pass of the loop keeps this; and when the learn mode is off while the button is
  recorded as pressed, the sample "released" changes the recorded button state and nothing
  else. Over a run: when the learn mode is enabled after some passes, then a pass in which
  the button is not sampled as released and the decoder delivers a code other than
  \<open>0xFFFFFFFF\<close> commits that code, normalised; after it and after any number of further
  passes in which the button is not sampled as released, whatever the decoder delivers,
  the button is still recorded as pressed and the learn mode is still off; and the release
  edge that follows changes the recorded button state and nothing else in
  \<^verbatim>\<open>processLearnButton\<close>, and the pass it belongs to leaves the learn mode off and the
  trained code and the EEPROM as they were.
\<close>

theorem learn_mode_implies_button_pressed:
  "(learnModeEnabled (run inps (setup_sketch ee)) \<longrightarrow> learnButtonState (run inps (setup_sketch ee)))
   \<and> ((learnModeEnabled s \<longrightarrow> learnButtonState s) \<longrightarrow>
        (learnModeEnabled (loop inp s) \<longrightarrow> learnButtonState (loop inp s)))
   \<and> (learnButtonState s \<and> \<not> learnModeEnabled s
        \<and> getButtonState env LEARN_BUTTON_PIN True = 0 \<longrightarrow>
        processLearnButton env s = s\<lparr>learnButtonState := False\<rparr>)
   \<and> (learnModeEnabled (run inps (setup_sketch ee))
        \<and> getButtonState (gpio commit) LEARN_BUTTON_PIN True \<noteq> 0
        \<and> ir commit = Some r \<and> ir_value r \<noteq> 0xFFFFFFFF
        \<and> (\<forall>h\<in>set held. getButtonState (gpio h) LEARN_BUTTON_PIN True \<noteq> 0)
        \<and> getButtonState (gpio release) LEARN_BUTTON_PIN True = 0 \<longrightarrow>
        irCodeData (run (inps @ [commit]) (setup_sketch ee)) =
          (if decode_type r = RC6 then ir_value r AND NOT 0x8000 else ir_value r)
        \<and> learnButtonState (run (inps @ commit # held) (setup_sketch ee))
        \<and> \<not> learnModeEnabled (run (inps @ commit # held) (setup_sketch ee))
        \<and> processLearnButton (gpio release) (run (inps @ commit # held) (setup_sketch ee)) =
            (run (inps @ commit # held) (setup_sketch ee))\<lparr>learnButtonState := False\<rparr>
        \<and> \<not> learnButtonState (run (inps @ commit # held @ [release]) (setup_sketch ee))
        \<and> \<not> learnModeEnabled (run (inps @ commit # held @ [release]) (setup_sketch ee))
        \<and> irCodeData (run (inps @ commit # held @ [release]) (setup_sketch ee)) =
            irCodeData (run (inps @ commit # held) (setup_sketch ee))
        \<and> EEPROM (run (inps @ commit # held @ [release]) (setup_sketch ee)) =
            EEPROM (run (inps @ commit # held) (setup_sketch ee)))"
proof (intro conjI)
  show inv: "learnModeEnabled (run inps (setup_sketch ee)) \<longrightarrow> learnButtonState (run inps (setup_sketch ee))"
    by (rule learn_implies_pressed_run) (simp add: setup_sketch_flags)
  show "(learnModeEnabled s \<longrightarrow> learnButtonState s) \<longrightarrow>
        (learnModeEnabled (loop inp s) \<longrightarrow> learnButtonState (loop inp s))"
    using learn_implies_pressed_loop by blast
  show "learnButtonState s \<and> \<not> learnModeEnabled s
        \<and> getButtonState env LEARN_BUTTON_PIN True = 0 \<longrightarrow>
        processLearnButton env s = s\<lparr>learnButtonState := False\<rparr>"
    by (simp add: processLearnButton_cases)
  show "learnModeEnabled (run inps (setup_sketch ee))
        \<and> getButtonState (gpio commit) LEARN_BUTTON_PIN True \<noteq> 0
        \<and> ir commit = Some r \<and> ir_value r \<noteq> 0xFFFFFFFF
        \<and> (\<forall>h\<in>set held. getButtonState (gpio h) LEARN_BUTTON_PIN True \<noteq> 0)
        \<and> getButtonState (gpio release) LEARN_BUTTON_PIN True = 0 \<longrightarrow>
        irCodeData (run (inps @ [commit]) (setup_sketch ee)) =
          (if decode_type r = RC6 then ir_value r AND NOT 0x8000 else ir_value r)
        \<and> learnButtonState (run (inps @ commit # held) (setup_sketch ee))
        \<and> \<not> learnModeEnabled (run (inps @ commit # held) (setup_sketch ee))
        \<and> processLearnButton (gpio release) (run (inps @ commit # held) (setup_sketch ee)) =
            (run (inps @ commit # held) (setup_sketch ee))\<lparr>learnButtonState := False\<rparr>
        \<and> \<not> learnButtonState (run (inps @ commit # held @ [release]) (setup_sketch ee))
        \<and> \<not> learnModeEnabled (run (inps @ commit # held @ [release]) (setup_sketch ee))
        \<and> irCodeData (run (inps @ commit # held @ [release]) (setup_sketch ee)) =
            irCodeData (run (inps @ commit # held) (setup_sketch ee))
        \<and> EEPROM (run (inps @ commit # held @ [release]) (setup_sketch ee)) =
            EEPROM (run (inps @ commit # held) (setup_sketch ee))"
  proof
    assume h: "learnModeEnabled (run inps (setup_sketch ee))
        \<and> getButtonState (gpio commit) LEARN_BUTTON_PIN True \<noteq> 0
        \<and> ir commit = Some r \<and> ir_value r \<noteq> 0xFFFFFFFF
        \<and> (\<forall>h\<in>set held. getButtonState (gpio h) LEARN_BUTTON_PIN True \<noteq> 0)
        \<and> getButtonState (gpio release) LEARN_BUTTON_PIN True = 0"
    define s0 where "s0 = run inps (setup_sketch ee)"
    define t where "t = run held (loop commit s0)"
    have learning: "learnModeEnabled s0" "learnButtonState s0"
      using h inv by (simp_all add: s0_def)
    have committed: "learnButtonState (loop commit s0) \<and> \<not> learnModeEnabled (loop commit s0)
        \<and> irCodeData (loop commit s0) =
            (if decode_type r = RC6 then ir_value r AND NOT 0x8000 else ir_value r)"
      using h learning by (intro commit_with_button_held) simp_all
    have kept: "learnButtonState t \<and> \<not> learnModeEnabled t"
      unfolding t_def using h committed by (intro held_after_commit_run) simp_all
    have released: "processLearnButton (gpio release) t = t\<lparr>learnButtonState := False\<rparr>
        \<and> \<not> learnButtonState (loop release t) \<and> \<not> learnModeEnabled (loop release t)
        \<and> irCodeData (loop release t) = irCodeData t \<and> EEPROM (loop release t) = EEPROM t"
      using h kept by (intro release_after_commit) simp_all
    have r1: "run (inps @ [commit]) (setup_sketch ee) = loop commit s0"
      by (simp add: run_append s0_def)
    have r2: "run (inps @ commit # held) (setup_sketch ee) = t"
      by (simp add: run_append s0_def t_def)
    have r3: "run (inps @ commit # held @ [release]) (setup_sketch ee) = loop release t"
      by (simp add: run_append s0_def t_def)
    show "irCodeData (run (inps @ [commit]) (setup_sketch ee)) =
          (if decode_type r = RC6 then ir_value r AND NOT 0x8000 else ir_value r)
        \<and> learnButtonState (run (inps @ commit # held) (setup_sketch ee))
        \<and> \<not> learnModeEnabled (run (inps @ commit # held) (setup_sketch ee))
        \<and> processLearnButton (gpio release) (run (inps @ commit # held) (setup_sketch ee)) =
            (run (inps @ commit # held) (setup_sketch ee))\<lparr>learnButtonState := False\<rparr>
        \<and> \<not> learnButtonState (run (inps @ commit # held @ [release]) (setup_sketch ee))
        \<and> \<not> learnModeEnabled (run (inps @ commit # held @ [release]) (setup_sketch ee))
        \<and> irCodeData (run (inps @ commit # held @ [release]) (setup_sketch ee)) =
            irCodeData (run (inps @ commit # held) (setup_sketch ee))
        \<and> EEPROM (run (inps @ commit # held @ [release]) (setup_sketch ee)) =
            EEPROM (run (inps @ commit # held) (setup_sketch ee))"
      unfolding r1 r2 r3 using committed kept released by blast
  qed
qed

theorem learn_mode_implies_button_pressed_witness:
  "learnModeEnabled (run [button_held None] (setup_sketch erased_eeprom))
   \<and> learnButtonState (run [button_held None] (setup_sketch erased_eeprom))
   \<and> learnModeEnabled (loop (button_held None) (example_state True True 0xA5))
   \<and> learnButtonState (loop (button_held None) (example_state True True 0xA5))
   \<and> getButtonState (\<lambda>_ _. HIGH) LEARN_BUTTON_PIN True = 0
   \<and> processLearnButton (\<lambda>_ _. HIGH) (example_state True False 0xA5)
       = (example_state True False 0xA5)\<lparr>learnButtonState := False\<rparr>
   \<and> irCodeData (run [button_held None,
          button_held (Some \<lparr>decode_type = 1, ir_value = 0xA5\<rparr>)]
        (setup_sketch erased_eeprom)) = 0xA5
   \<and> learnButtonState (run [button_held None,
          button_held (Some \<lparr>decode_type = 1, ir_value = 0xA5\<rparr>),
          button_held None, button_held (Some \<lparr>decode_type = 1, ir_value = 0x5A\<rparr>)]
        (setup_sketch erased_eeprom))
   \<and> \<not> learnModeEnabled (run [button_held None,
          button_held (Some \<lparr>decode_type = 1, ir_value = 0xA5\<rparr>),
          button_held None, button_held (Some \<lparr>decode_type = 1, ir_value = 0x5A\<rparr>)]
        (setup_sketch erased_eeprom))
   \<and> \<not> learnButtonState (run [button_held None,
          button_held (Some \<lparr>decode_type = 1, ir_value = 0xA5\<rparr>),
          button_held None, button_held (Some \<lparr>decode_type = 1, ir_value = 0x5A\<rparr>),
          button_released None]
        (setup_sketch erased_eeprom))
   \<and> \<not> learnModeEnabled (run [button_held None,
          button_held (Some \<lparr>decode_type = 1, ir_value = 0xA5\<rparr>),
          button_held None, button_held (Some \<lparr>decode_type = 1, ir_value = 0x5A\<rparr>),
          button_released None]
        (setup_sketch erased_eeprom))
   \<and> irCodeData (run [button_held None,
          button_held (Some \<lparr>decode_type = 1, ir_value = 0xA5\<rparr>),
          button_held None, button_held (Some \<lparr>decode_type = 1, ir_value = 0x5A\<rparr>),
          button_released None]
        (setup_sketch erased_eeprom)) = 0xA5"
  using learn_mode_implies_button_pressed [where inps = "[button_held None]"
      and ee = erased_eeprom and s = "example_state True True 0xA5"
      and inp = "button_held None" and env = "\<lambda>_ _. HIGH"
      and commit = "button_held (Some \<lparr>decode_type = 1, ir_value = 0xA5\<rparr>)"
      and r = "\<lparr>decode_type = 1, ir_value = 0xA5\<rparr>"
      and held = "[button_held None, button_held (Some \<lparr>decode_type = 1, ir_value = 0x5A\<rparr>)]"
      and release = "button_released None"]
    learn_mode_implies_button_pressed [where inps = "[]"
      and ee = erased_eeprom and s = "example_state True False 0xA5"
      and inp = "button_held None" and env = "\<lambda>_ _. HIGH"
      and commit = "button_held None" and r = "\<lparr>decode_type = 1, ir_value = 0xA5\<rparr>"
      and held = "[]" and release = "button_released None"]
  by (simp add: example_defs sketch_defs RC6_def)

end
